theory Spec2Isabelle
  imports Complex_Main "HOL-Library.Sublist"
begin

section \<open>Polymarket Edge Finder: the dashboard client and the engine it displays\<close>

text \<open>
  The repository holds a React front end (\<^verbatim>\<open>App.jsx\<close>, the API client, the card
  components, \<^verbatim>\<open>ScoreBar.jsx\<close>) and a README describing the Python back end.
  Where the code computes with numbers (\<^verbatim>\<open>ScoreBar.jsx\<close>) they are IEEE-754 doubles
  with their rounding, their infinities, their signed zero and \<^verbatim>\<open>NaN\<close>. Where it only
  tests a value or converts it to a string (the API client) a value is modelled by its
  truthiness and by the outcome of its conversion, which may throw. Strings are byte
  strings.
\<close>

subsection \<open>JavaScript numbers\<close>

text \<open>
  A Number is a binary64 value: a rational of the form \<open>m * 2^e\<close> with \<open>\<bar>m\<bar> < 2^53\<close> and
  \<open>- 1074 \<le> e \<le> 971\<close> (\<open>Finite\<close>; \<open>Finite 0\<close> is \<open>+0\<close>), negative zero, the two
  infinities, or \<^verbatim>\<open>NaN\<close>.
\<close>

datatype double = Finite rat | NegZero | PosInf | NegInf | NaN

text \<open>The number of binary digits of a positive integer.\<close>

function bit_length :: "int \<Rightarrow> int" where
  "bit_length n = (if n \<le> 0 then 0 else 1 + bit_length (n div 2))"
  by pat_completeness auto
termination
  by (relation "measure nat") auto

text \<open>
  The binary exponent of a positive rational \<open>a\<close>: the \<open>k\<close> with \<open>2^k \<le> a < 2^(k+1)\<close>.
\<close>

definition ilog2 :: "rat \<Rightarrow> int" where
  "ilog2 a = (if 1 \<le> a then bit_length \<lfloor>a\<rfloor> - 1 else - bit_length (\<lceil>1 / a\<rceil> - 1))"

definition pow2 :: "int \<Rightarrow> rat" where
  "pow2 e = (if 0 \<le> e then 2 ^ nat e else 1 / 2 ^ nat (- e))"

text \<open>Rounding to the nearest integer, a tie to the even one.\<close>

definition round_half_even :: "rat \<Rightarrow> int" where
  "round_half_even x =
     (let f = \<lfloor>x\<rfloor>; d = x - of_int f
      in if d < 1 / 2 then f else if 1 / 2 < d then f + 1 else if even f then f else f + 1)"

definition signed_zero :: "bool \<Rightarrow> double" where
  "signed_zero neg = (if neg then NegZero else Finite 0)"

definition signed_inf :: "bool \<Rightarrow> double" where
  "signed_inf neg = (if neg then NegInf else PosInf)"

text \<open>
  The double nearest to an exact result \<open>q\<close> (round to nearest, ties to even, the
  rounding of every arithmetic operator of the language): 53 significant bits at the
  exponent of \<open>q\<close>, fewer below \<open>2^(- 1022)\<close> where the spacing stays \<open>2^(- 1074)\<close>; a
  result that rounds to \<open>2^1024\<close> or more is an infinity, and a nonzero one that rounds
  to nothing is a zero with the sign of \<open>q\<close>.
\<close>

definition round_to_double :: "rat \<Rightarrow> double" where
  "round_to_double q =
     (let a = \<bar>q\<bar>;
          e = max (ilog2 a) (- 1022) - 52;
          m = round_half_even (a / pow2 e);
          r = of_int m * pow2 e
      in if q = 0 then Finite 0
         else if pow2 1024 \<le> r then signed_inf (q < 0)
         else if m = 0 then signed_zero (q < 0)
         else Finite (if q < 0 then - r else r))"

fun is_zero :: "double \<Rightarrow> bool" where
  "is_zero (Finite q) = (q = 0)"
| "is_zero NegZero = True"
| "is_zero d = False"

fun is_inf :: "double \<Rightarrow> bool" where
  "is_inf PosInf = True"
| "is_inf NegInf = True"
| "is_inf d = False"

fun negative :: "double \<Rightarrow> bool" where
  "negative (Finite q) = (q < 0)"
| "negative NegZero = True"
| "negative NegInf = True"
| "negative d = False"

fun num :: "double \<Rightarrow> rat" where
  "num (Finite q) = q"
| "num d = 0"

text \<open>
  The operators \<^verbatim>\<open>/\<close> and \<^verbatim>\<open>*\<close> on Numbers (ECMAScript \<^verbatim>\<open>Number::divide\<close> and
  \<^verbatim>\<open>Number::multiply\<close>): \<^verbatim>\<open>NaN\<close> from a \<^verbatim>\<open>NaN\<close> operand, from
  \<^verbatim>\<open>Infinity / Infinity\<close>, \<^verbatim>\<open>0 / 0\<close> and \<^verbatim>\<open>0 * Infinity\<close>; an infinity or a zero with the
  sign of the operands where one operand is an infinity or a zero; the rounded exact
  result otherwise.
\<close>

definition fdiv :: "double \<Rightarrow> double \<Rightarrow> double" where
  "fdiv a b =
     (if a = NaN \<or> b = NaN then NaN
      else if (is_inf a \<and> is_inf b) \<or> (is_zero a \<and> is_zero b) then NaN
      else if is_inf a \<or> is_zero b then signed_inf (negative a \<noteq> negative b)
      else if is_inf b \<or> is_zero a then signed_zero (negative a \<noteq> negative b)
      else round_to_double (num a / num b))"

definition fmul :: "double \<Rightarrow> double \<Rightarrow> double" where
  "fmul a b =
     (if a = NaN \<or> b = NaN then NaN
      else if (is_inf a \<and> is_zero b) \<or> (is_zero a \<and> is_inf b) then NaN
      else if is_inf a \<or> is_inf b then signed_inf (negative a \<noteq> negative b)
      else if is_zero a \<or> is_zero b then signed_zero (negative a \<noteq> negative b)
      else round_to_double (num a * num b))"

text \<open>
  The comparisons \<^verbatim>\<open><\<close> and \<^verbatim>\<open>>=\<close>: false whenever an operand is \<^verbatim>\<open>NaN\<close>; the two
  zeros compare equal.
\<close>

definition js_lt :: "double \<Rightarrow> double \<Rightarrow> bool" where
  "js_lt a b =
     (if a = NaN \<or> b = NaN then False
      else if a = PosInf \<or> b = NegInf then False
      else if a = NegInf \<or> b = PosInf then True
      else num a < num b)"

definition js_ge :: "double \<Rightarrow> double \<Rightarrow> bool" where
  "js_ge a b = (a \<noteq> NaN \<and> b \<noteq> NaN \<and> \<not> js_lt a b)"

text \<open>
  \<^verbatim>\<open>Math.max\<close> and \<^verbatim>\<open>Math.min\<close> of two Numbers: \<^verbatim>\<open>NaN\<close> if either is \<^verbatim>\<open>NaN\<close>; \<open>+0\<close>
  counts as larger than \<open>-0\<close>.
\<close>

definition Math_max :: "double \<Rightarrow> double \<Rightarrow> double" where
  "Math_max a b =
     (if a = NaN \<or> b = NaN then NaN
      else if js_lt a b then b
      else if js_lt b a then a
      else if a = NegZero then b else a)"

definition Math_min :: "double \<Rightarrow> double \<Rightarrow> double" where
  "Math_min a b =
     (if a = NaN \<or> b = NaN then NaN
      else if js_lt a b then a
      else if js_lt b a then b
      else if a = NegZero then a else b)"

subsection \<open>ScoreBar.jsx\<close>

text \<open>
  \<^verbatim>\<open>const percentage = Math.min(100, Math.max(0, (value / max) * 100));\<close>
\<close>

definition percentage :: "double \<Rightarrow> double \<Rightarrow> double" where
  "percentage v mx = Math_min (Finite 100) (Math_max (Finite 0) (fmul (fdiv v mx) (Finite 100)))"

text \<open>
  \<^verbatim>\<open>let colorClass = 'low'; if (percentage >= 70) colorClass = 'high';
  else if (percentage >= 40) colorClass = 'medium';\<close>
\<close>

definition colorClass :: "double \<Rightarrow> string" where
  "colorClass p =
     (if js_ge p (Finite 70) then ''high'' else if js_ge p (Finite 40) then ''medium'' else ''low'')"

text \<open>
  What the component renders: the inner div's class name \<^verbatim>\<open>`fill ${colorClass}`\<close> and
  its width in percent. The arguments are the props when they are Numbers; the second
  is the \<^verbatim>\<open>max\<close> prop: \<open>None\<close> when the caller leaves it out, and then the default
  \<open>100\<close> applies.
\<close>

record score_bar_view =
  fill_class :: string
  fill_width :: double

definition ScoreBar :: "double \<Rightarrow> double option \<Rightarrow> score_bar_view" where
  "ScoreBar v max_prop =
     (let mx = (case max_prop of None \<Rightarrow> Finite 100 | Some m \<Rightarrow> m);
          p = percentage v mx
      in \<lparr>fill_class = ''fill '' @ colorClass p, fill_width = p\<rparr>)"

subsection \<open>JavaScript values\<close>

text \<open>
  What \<^verbatim>\<open>response.json()\<close> may yield: \<^verbatim>\<open>null\<close>, a boolean, a number (a numeral too
  large for a double parses to an infinity), a string, an array, or an object, given
  by the list of its own properties (the first entry for a name is the property).
\<close>

datatype js_error = Error string | TypeError | SyntaxError

datatype json_value =
    JNull
  | JBool bool
  | JNum rat
  | JPosInf
  | JNegInf
  | JStr string
  | JArr "json_value list"
  | JObj "(string \<times> json_value) list"

text \<open>
  ECMAScript \<^verbatim>\<open>ToBoolean\<close>, as \<^verbatim>\<open>if (x)\<close> and \<^verbatim>\<open>x || y\<close> apply it: \<^verbatim>\<open>null\<close>,
  \<^verbatim>\<open>false\<close>, \<^verbatim>\<open>0\<close> and the empty string are falsy; every object and array is truthy.
\<close>

fun truthy_json :: "json_value \<Rightarrow> bool" where
  "truthy_json JNull = False"
| "truthy_json (JBool b) = b"
| "truthy_json (JNum r) = (r \<noteq> 0)"
| "truthy_json JPosInf = True"
| "truthy_json JNegInf = True"
| "truthy_json (JStr s) = (s \<noteq> [])"
| "truthy_json (JArr xs) = True"
| "truthy_json (JObj kvs) = True"

fun join :: "string \<Rightarrow> string list \<Rightarrow> string" where
  "join sep [] = []"
| "join sep [x] = x"
| "join sep (x # y # ys) = x @ sep @ join sep (y # ys)"

text \<open>The conversions of a list of values, up to the first one that throws.\<close>

fun first_error :: "(js_error + 'a) list \<Rightarrow> js_error + 'a list" where
  "first_error [] = Inr []"
| "first_error (Inl e # rs) = Inl e"
| "first_error (Inr x # rs) = (case first_error rs of Inl e \<Rightarrow> Inl e | Inr xs \<Rightarrow> Inr (x # xs))"

text \<open>
  ECMAScript \<^verbatim>\<open>ToString\<close> on a parsed JSON value, as \<^verbatim>\<open>new Error(x)\<close> and
  \<^verbatim>\<open>params.append(name, x)\<close> apply it. The first argument stands for
  \<^verbatim>\<open>Number::toString\<close> on finite numbers, a built-in of the language and no code of this
  repository. An array joins its elements with commas, a \<^verbatim>\<open>null\<close> element as the
  empty string, and throws if an element does. An object is converted by its
  \<^verbatim>\<open>toString\<close> method: a parsed object with an own property of that name has a value
  there that cannot be called, its inherited \<^verbatim>\<open>valueOf\<close> (or an own one) yields no
  primitive either, and the conversion throws a TypeError; any other parsed object
  inherits \<^verbatim>\<open>Object.prototype.toString\<close>.
\<close>

fun ToString_json :: "(rat \<Rightarrow> string) \<Rightarrow> json_value \<Rightarrow> js_error + string" where
  "ToString_json ns JNull = Inr ''null''"
| "ToString_json ns (JBool b) = Inr (if b then ''true'' else ''false'')"
| "ToString_json ns (JNum r) = Inr (ns r)"
| "ToString_json ns JPosInf = Inr ''Infinity''"
| "ToString_json ns JNegInf = Inr ''-Infinity''"
| "ToString_json ns (JStr s) = Inr s"
| "ToString_json ns (JArr xs) =
     (case first_error (map (\<lambda>x. if x = JNull then Inr [] else ToString_json ns x) xs) of
        Inl e \<Rightarrow> Inl e
      | Inr strs \<Rightarrow> Inr (join '','' strs))"
| "ToString_json ns (JObj kvs) =
     (if ''toString'' \<in> fst ` set kvs then Inl TypeError else Inr ''[object Object]'')"




text \<open>Decimal digits of a natural number: how a template literal prints an HTTP status.\<close>

fun show_nat :: "nat \<Rightarrow> string" where
  "show_nat n =
     (if n < 10 then [''0123456789'' ! n]
      else show_nat (n div 10) @ [''0123456789'' ! (n mod 10)])"



text \<open>
  The property access \<^verbatim>\<open>error.detail\<close> on a parsed body: a TypeError on \<^verbatim>\<open>null\<close>;
  \<^verbatim>\<open>undefined\<close> (\<open>None\<close>) where the value is no object or has no such property.
\<close>

fun get_detail :: "json_value \<Rightarrow> js_error + json_value option" where
  "get_detail JNull = Inl TypeError"
| "get_detail (JObj kvs) = Inr (map_of kvs ''detail'')"
| "get_detail v = Inr None"

subsection \<open>URLSearchParams\<close>








subsection \<open>The API client: request\<close>

text \<open>
  \<^verbatim>\<open>fetch\<close> is the environment: it maps the call to a network failure or to a
  response. Of a response the client reads \<^verbatim>\<open>status\<close>, \<^verbatim>\<open>ok\<close> (true for a status
  in 200..299) and \<^verbatim>\<open>json()\<close>, which yields the parsed body or rejects with a
  SyntaxError when the body is not JSON (\<open>None\<close>).
\<close>

record fetch_call =
  url :: string
  http_method :: string

record response =
  status :: nat
  json :: "json_value option"

datatype fetch_outcome = NetworkFailure | Response response

definition ok :: "response \<Rightarrow> bool" where
  "ok r = (200 \<le> status r \<and> status r \<le> 299)"

text \<open>
  \<^verbatim>\<open>
  async function request(endpoint, options = {}) {
    const url = `${API_BASE}${endpoint}`;
    const response = await fetch(url, {...});
    if (!response.ok) {
      const error = await response.json().catch(() => ({}));
      throw new Error(error.detail || `Request failed: ${response.status}`);
    }
    return response.json();
  }
  \<close>
  The result of a client function is the list of \<^verbatim>\<open>fetch\<close> calls it issued and what
  it returned (\<open>Inr\<close>) or threw (\<open>Inl\<close>). \<^verbatim>\<open>new Error(x)\<close> converts \<open>x\<close> to a string
  for its message, and throws what that conversion throws.
\<close>

type_synonym client_result = "fetch_call list \<times> (js_error + json_value)"

definition request ::
  "(fetch_call \<Rightarrow> fetch_outcome) \<Rightarrow> (rat \<Rightarrow> string) \<Rightarrow> string \<Rightarrow> string \<Rightarrow> string
     \<Rightarrow> client_result" where
  "request fetch ns API_BASE endpoint meth =
     (let call = \<lparr>url = API_BASE @ endpoint, http_method = meth\<rparr> in
      ([call],
       case fetch call of
         NetworkFailure \<Rightarrow> Inl TypeError
       | Response r \<Rightarrow>
           if \<not> ok r then
             (let error = (case json r of None \<Rightarrow> JObj [] | Some v \<Rightarrow> v) in
              case get_detail error of
                Inl e \<Rightarrow> Inl e
              | Inr detail \<Rightarrow>
                  (case (case detail of
                           Some d \<Rightarrow>
                             if truthy_json d then ToString_json ns d
                             else Inr (''Request failed: '' @ show_nat (status r))
                         | None \<Rightarrow> Inr (''Request failed: '' @ show_nat (status r))) of
                     Inl e \<Rightarrow> Inl e
                   | Inr message \<Rightarrow> Inl (Error message)))
           else (case json r of None \<Rightarrow> Inl SyntaxError | Some v \<Rightarrow> Inr v)))"

subsection \<open>The API client: the list endpoints\<close>










subsection \<open>OpportunityCard.jsx\<close>

text \<open>
  \<^verbatim>\<open>
  const EDGE_TYPE_LABELS = {
    arbitrage: { label: 'Arbitrage', color: 'green' },
    mispricing: { label: 'Mispricing', color: 'yellow' },
    correlation: { label: 'Correlation', color: 'blue' },
    volume_signal: { label: 'Volume Signal', color: 'purple' },
    liquidity_gap: { label: 'Liquidity Gap', color: 'blue' },
  };
  const typeInfo = EDGE_TYPE_LABELS[opportunity.edge_type]
                   || { label: opportunity.edge_type, color: 'gray' };
  \<close>
\<close>

record type_info =
  label :: string
  color :: string

definition EDGE_TYPE_LABELS :: "(string \<times> type_info) list" where
  "EDGE_TYPE_LABELS =
     [(''arbitrage'', \<lparr>label = ''Arbitrage'', color = ''green''\<rparr>),
      (''mispricing'', \<lparr>label = ''Mispricing'', color = ''yellow''\<rparr>),
      (''correlation'', \<lparr>label = ''Correlation'', color = ''blue''\<rparr>),
      (''volume_signal'', \<lparr>label = ''Volume Signal'', color = ''purple''\<rparr>),
      (''liquidity_gap'', \<lparr>label = ''Liquidity Gap'', color = ''blue''\<rparr>)]"

definition typeInfo :: "string \<Rightarrow> type_info" where
  "typeInfo edge_type =
     (case map_of EDGE_TYPE_LABELS edge_type of
        Some info \<Rightarrow> info
      | None \<Rightarrow> \<lparr>label = edge_type, color = ''gray''\<rparr>)"




text \<open>
  The \<^verbatim>\<open>detail\<close> field of a response body: \<^verbatim>\<open>undefined\<close> (\<open>None\<close>) when the body is
  not JSON, is not an object or has no such field.
\<close>

definition detail_of :: "response \<Rightarrow> json_value option" where
  "detail_of r =
     (case json r of
        Some (JObj kvs) \<Rightarrow> map_of kvs ''detail''
      | _ \<Rightarrow> None)"

subsection \<open>App.jsx: the refresh handler as a state machine\<close>

text \<open>
  The component's state is the React state (\<^verbatim>\<open>loading\<close>, \<^verbatim>\<open>refreshing\<close>,
  \<^verbatim>\<open>error\<close>) together with where its asynchronous handlers stand: how many
  \<^verbatim>\<open>handleRefresh\<close> calls are suspended at \<^verbatim>\<open>await api.refreshData(...)\<close>, which
  timers of \<^verbatim>\<open>setInterval\<close> are live (a timer is named by a number), which status
  requests issued by poll callbacks are in flight (each named by the timer whose callback
  issued it), and how many \<^verbatim>\<open>loadDemoData\<close> and \<^verbatim>\<open>fetchData\<close> calls await their result.
  \<open>calls\<close> logs the API calls issued, in order; \<open>CallFetchData\<close> stands for the four
  requests of \<^verbatim>\<open>fetchData\<close>'s \<^verbatim>\<open>Promise.all\<close>.

  An event is a click, a tick of a timer, or the settling of a promise. The component is
  rendered between events, so a button's \<^verbatim>\<open>disabled\<close> attribute is the one of the
  current state.
\<close>

datatype api_call = CallRefreshData | CallGetStatus | CallFetchData | CallLoadDemoData

datatype 'a settled = Resolved 'a | Rejected string

datatype event =
    ClickRefresh
  | ClickLoadDemo
  | ClickEmptyStateLoadDemo
  | RefreshDataSettled "unit settled"
  | PollTick nat
  | StatusSettled nat "bool settled"
  | LoadDemoSettled "unit settled"
  | FetchDataSettled "unit settled"

record app =
  loading :: bool
  refreshing :: bool
  error :: "string option"
  awaiting_refresh :: nat
  timers :: "nat list"
  next_timer :: nat
  status_pending :: "nat list"
  awaiting_demo :: nat
  fetching :: nat
  calls :: "api_call list"

text \<open>
  \<^verbatim>\<open>fetchData\<close> up to its \<^verbatim>\<open>await Promise.all([...])\<close>:
  \<^verbatim>\<open>setLoading(true); setError(null);\<close> and the four requests.
\<close>

definition fetchData :: "app \<Rightarrow> app" where
  "fetchData s = s\<lparr>loading := True, error := None, fetching := fetching s + 1,
                   calls := calls s @ [CallFetchData]\<rparr>"

text \<open>The state after mounting: \<^verbatim>\<open>useState\<close> defaults, and the effect that calls
  \<^verbatim>\<open>fetchData\<close>.\<close>

definition initial_app :: app where
  "initial_app = fetchData \<lparr>loading = True, refreshing = False, error = None,
     awaiting_refresh = 0, timers = [], next_timer = 0, status_pending = [],
     awaiting_demo = 0, fetching = 0, calls = []\<rparr>"

text \<open>Both header buttons carry \<^verbatim>\<open>disabled={loading || refreshing}\<close>.\<close>

definition refresh_button_disabled :: "app \<Rightarrow> bool" where
  "refresh_button_disabled s = (loading s \<or> refreshing s)"

definition load_demo_button_disabled :: "app \<Rightarrow> bool" where
  "load_demo_button_disabled s = (loading s \<or> refreshing s)"

text \<open>\<^verbatim>\<open>handleLoadDemo\<close> up to \<^verbatim>\<open>await api.loadDemoData()\<close>, and \<^verbatim>\<open>handleRefresh\<close>
  up to \<^verbatim>\<open>await api.refreshData({ maxMarkets: 100, minVolume: 1000 })\<close>.\<close>

definition handleLoadDemo :: "app \<Rightarrow> app" where
  "handleLoadDemo s = s\<lparr>loading := True, awaiting_demo := awaiting_demo s + 1,
                        calls := calls s @ [CallLoadDemoData]\<rparr>"

definition handleRefresh :: "app \<Rightarrow> app" where
  "handleRefresh s = s\<lparr>refreshing := True, error := None,
                       awaiting_refresh := awaiting_refresh s + 1,
                       calls := calls s @ [CallRefreshData]\<rparr>"

text \<open>
  One event. A disabled button delivers no click. The empty-state button
  (\<^verbatim>\<open>Load Demo Data\<close>) has no \<^verbatim>\<open>disabled\<close> attribute and is rendered only when
  \<^verbatim>\<open>loading\<close> is false (and no market is listed): the model lets it be clicked whenever
  \<^verbatim>\<open>loading\<close> is false. The continuation of \<^verbatim>\<open>handleRefresh\<close>:
  \<^verbatim>\<open>
      const pollInterval = setInterval(async () => {
        try {
          const status = await api.getStatus();
          if (!status.is_loading) {
            clearInterval(pollInterval); setRefreshing(false); await fetchData();
          }
        } catch (err) {
          clearInterval(pollInterval); setRefreshing(false); setError(err.message);
        }
      }, 2000);
    } catch (err) { setRefreshing(false); setError(err.message); }
  \<close>
  A tick of a live timer starts the callback, which issues the status request; when that
  request settles the callback goes on, whether or not its timer is still live.
  \<^verbatim>\<open>clearInterval(pollInterval)\<close> clears the callback's own timer.
\<close>

fun step :: "event \<Rightarrow> app \<Rightarrow> app" where
  "step ClickRefresh s = (if refresh_button_disabled s then s else handleRefresh s)"
| "step ClickLoadDemo s = (if load_demo_button_disabled s then s else handleLoadDemo s)"
| "step ClickEmptyStateLoadDemo s = (if loading s then s else handleLoadDemo s)"
| "step (RefreshDataSettled r) s =
     (if awaiting_refresh s = 0 then s
      else let s = s\<lparr>awaiting_refresh := awaiting_refresh s - 1\<rparr> in
        case r of
          Resolved u \<Rightarrow>
            s\<lparr>timers := timers s @ [next_timer s], next_timer := next_timer s + 1\<rparr>
        | Rejected msg \<Rightarrow> s\<lparr>refreshing := False, error := Some msg\<rparr>)"
| "step (PollTick k) s =
     (if k \<notin> set (timers s) then s
      else s\<lparr>calls := calls s @ [CallGetStatus],
             status_pending := status_pending s @ [k]\<rparr>)"
| "step (StatusSettled k r) s =
     (if k \<notin> set (status_pending s) then s
      else let s = s\<lparr>status_pending := remove1 k (status_pending s)\<rparr> in
        case r of
          Resolved is_loading \<Rightarrow>
            if \<not> is_loading
            then fetchData (s\<lparr>timers := removeAll k (timers s), refreshing := False\<rparr>)
            else s
        | Rejected msg \<Rightarrow>
            s\<lparr>timers := removeAll k (timers s), refreshing := False, error := Some msg\<rparr>)"
| "step (LoadDemoSettled r) s =
     (if awaiting_demo s = 0 then s
      else let s = s\<lparr>awaiting_demo := awaiting_demo s - 1\<rparr> in
        case r of
          Resolved u \<Rightarrow> fetchData s
        | Rejected msg \<Rightarrow> s\<lparr>error := Some msg, loading := False\<rparr>)"
| "step (FetchDataSettled r) s =
     (if fetching s = 0 then s
      else let s = s\<lparr>fetching := fetching s - 1\<rparr> in
        case r of
          Resolved u \<Rightarrow> s\<lparr>loading := False\<rparr>
        | Rejected msg \<Rightarrow> s\<lparr>error := Some msg, loading := False\<rparr>)"

fun run :: "event list \<Rightarrow> app \<Rightarrow> app" where
  "run [] s = s"
| "run (e # es) s = run es (step e s)"

text \<open>
  A sequence of events in which no timer ticks while a status request is in flight:
  every status response arrives before the next tick, 2 seconds later.
\<close>

fun no_overlap :: "event list \<Rightarrow> app \<Rightarrow> bool" where
  "no_overlap [] s = True"
| "no_overlap (e # es) s =
     ((case e of PollTick k \<Rightarrow> status_pending s = [] | _ \<Rightarrow> True)
      \<and> no_overlap es (step e s))"

text \<open>The refresh requests and status polls among the calls issued so far.\<close>

definition refresh_calls :: "app \<Rightarrow> api_call list" where
  "refresh_calls s = filter (\<lambda>c. c = CallRefreshData \<or> c = CallGetStatus) (calls s)"

text \<open>
  At most one \<^verbatim>\<open>handleRefresh\<close> is under way, and \<open>refreshing\<close> says whether one is:
  it awaits its refresh request or its timer is live, and a status request in flight
  belongs to the live timer. \<open>idle\<close>: none is under way.
\<close>

definition one_handler :: "app \<Rightarrow> bool" where
  "one_handler s =
     (refreshing s = (awaiting_refresh s = 1 \<or> timers s \<noteq> [])
      \<and> awaiting_refresh s \<le> 1 \<and> length (timers s) \<le> 1
      \<and> \<not> (awaiting_refresh s = 1 \<and> timers s \<noteq> [])
      \<and> length (status_pending s) \<le> 1
      \<and> set (status_pending s) \<subseteq> set (timers s))"

definition idle :: "app \<Rightarrow> bool" where
  "idle s = (\<not> refreshing s \<and> awaiting_refresh s = 0 \<and> timers s = []
             \<and> status_pending s = [])"

subsection \<open>The engine behind the API (back end, not among the sources)\<close>

text \<open>
  The front end displays markets, opportunities and predictions computed by the Python
  back end (\<^verbatim>\<open>backend/core/models.py\<close>, \<^verbatim>\<open>detection.py\<close>, \<^verbatim>\<open>research.py\<close> and the API
  routes). Those files are not among the sources; the README and the components show
  the field names and the agents' interface (\<^verbatim>\<open>can_analyze(market)\<close>,
  \<^verbatim>\<open>analyze(market)\<close>). What follows is modelled from the specification's words, with
  numbers as rationals.
\<close>

text \<open>Modelled from the spec: the Market snapshot of the data model (\<^verbatim>\<open>models.py\<close> is
  missing); field names as \<^verbatim>\<open>MarketCard.jsx\<close> reads them.\<close>

datatype MarketCategory = Politics | Sports | Crypto | Economics | Entertainment | Science | Other

record market =
  market_id :: string
  question :: string
  category :: MarketCategory
  current_price :: rat
  no_price :: rat
  volume_24h :: rat
  liquidity :: rat
  spread_pct :: rat
  days_until_resolution :: "int option"
  edge_score :: rat
  polymarket_url :: "string option"

text \<open>Modelled from the spec: the Prediction of the data model (\<^verbatim>\<open>models.py\<close> is
  missing); field names as \<^verbatim>\<open>PredictionCard.jsx\<close> reads them, with \<open>p_\<close> before the
  names a market has too.\<close>

datatype Direction = BuyYes | BuyNo | Hold

datatype Strength = Weak | Moderate | Strong

record prediction =
  p_market_id :: string
  p_market_question :: string
  p_agent_name :: string
  direction :: Direction
  strength :: Strength
  p_current_price :: rat
  predicted_probability :: rat
  confidence :: int
  confidence_low :: rat
  confidence_high :: rat
  edge :: rat
  reasoning :: string
  key_risks :: "string list"
  catalysts :: "string list"

text \<open>Modelled from the spec: what an agent's placeholder heuristic contributes to a
  prediction (the agents of \<^verbatim>\<open>research.py\<close> are missing, and the specification leaves
  their heuristics open): the forecast and its rationale. The other fields of a
  prediction are fixed by the market and the data model's rules.\<close>

record estimate =
  est_probability :: rat
  est_confidence :: int
  est_low :: rat
  est_high :: rat
  est_strength :: Strength
  est_reasoning :: string
  est_key_risks :: "string list"
  est_catalysts :: "string list"

text \<open>Modelled from the spec: a research agent (\<^verbatim>\<open>research.py\<close> is missing), a name, the
  \<open>can_analyze\<close> predicate and the heuristic; and the orchestrator's configuration, the
  ordered registry, the fallback agent and the deadband.\<close>

record agent =
  agent_name :: string
  can_analyze :: "market \<Rightarrow> bool"
  estimate_of :: "market \<Rightarrow> estimate"

record orchestrator =
  agents :: "agent list"
  default_agent :: agent
  deadband :: rat

text \<open>Modelled from the spec: the direction rule (\<^verbatim>\<open>research.py\<close> is missing): an edge
  above the deadband is \<open>buy_yes\<close>, an edge below the negated deadband is \<open>buy_no\<close>,
  anything else is \<open>hold\<close>.\<close>

definition direction_for :: "rat \<Rightarrow> rat \<Rightarrow> Direction" where
  "direction_for db e = (if db < e then BuyYes else if e < - db then BuyNo else Hold)"

text \<open>Modelled from the spec: assembling a Prediction (\<^verbatim>\<open>research.py\<close> is missing): the
  market's id, question and current price are echoed, the edge is the predicted
  probability minus the current price, and the direction follows the edge.\<close>

definition make_prediction :: "rat \<Rightarrow> string \<Rightarrow> market \<Rightarrow> estimate \<Rightarrow> prediction" where
  "make_prediction db nm m e =
     \<lparr>p_market_id = market_id m, p_market_question = question m, p_agent_name = nm,
      direction = direction_for db (est_probability e - current_price m),
      strength = est_strength e, p_current_price = current_price m,
      predicted_probability = est_probability e, confidence = est_confidence e,
      confidence_low = est_low e, confidence_high = est_high e,
      edge = est_probability e - current_price m, reasoning = est_reasoning e,
      key_risks = est_key_risks e, catalysts = est_catalysts e\<rparr>"

text \<open>Modelled from the spec: an agent's \<open>analyze\<close> (\<^verbatim>\<open>research.py\<close> is missing).\<close>

definition analyze :: "rat \<Rightarrow> agent \<Rightarrow> market \<Rightarrow> prediction" where
  "analyze db a m = make_prediction db (agent_name a) m (estimate_of a m)"

text \<open>Modelled from the spec: the orchestrator's selection (\<^verbatim>\<open>AgentOrchestrator\<close> of
  \<^verbatim>\<open>research.py\<close> is missing): it walks the registry in order and takes the first agent
  whose \<open>can_analyze\<close> holds, the fallback agent when it reaches the end.\<close>

fun select_agent :: "agent list \<Rightarrow> agent \<Rightarrow> market \<Rightarrow> agent" where
  "select_agent [] d m = d"
| "select_agent (a # as) d m = (if can_analyze a m then a else select_agent as d m)"

text \<open>Modelled from the spec: the orchestrator's run over a batch
  (\<^verbatim>\<open>AgentOrchestrator\<close> is missing): one prediction per market, in the batch's order.\<close>

definition analyze_market :: "orchestrator \<Rightarrow> market \<Rightarrow> prediction" where
  "analyze_market orch m =
     analyze (deadband orch) (select_agent (agents orch) (default_agent orch) m) m"

fun analyze_all :: "orchestrator \<Rightarrow> market list \<Rightarrow> prediction list" where
  "analyze_all orch [] = []"
| "analyze_all orch (m # ms) = analyze_market orch m # analyze_all orch ms"

text \<open>Modelled from the spec: the market listing of the API layer (the routes of the
  back end are missing): the filters a query may carry (\<open>None\<close> for one left out), and
  the listing itself: filter, skip \<open>offset\<close>, keep at most \<open>limit\<close> (50 by default).\<close>

record market_query =
  q_category :: "MarketCategory option"
  min_score :: "rat option"
  min_volume :: "rat option"
  limit :: "nat option"
  offset :: "nat option"

definition passes_filters :: "market_query \<Rightarrow> market \<Rightarrow> bool" where
  "passes_filters q m =
     ((case q_category q of None \<Rightarrow> True | Some c \<Rightarrow> category m = c)
      \<and> (case min_score q of None \<Rightarrow> True | Some x \<Rightarrow> x \<le> edge_score m)
      \<and> (case min_volume q of None \<Rightarrow> True | Some v \<Rightarrow> v \<le> volume_24h m))"

definition list_markets :: "market list \<Rightarrow> market_query \<Rightarrow> market list" where
  "list_markets ms q =
     take (case limit q of None \<Rightarrow> 50 | Some n \<Rightarrow> n)
       (drop (case offset q of None \<Rightarrow> 0 | Some k \<Rightarrow> k) (filter (passes_filters q) ms))"

subsection \<open>Sample inputs\<close>

text \<open>A market, three agents and an orchestrator, used to run the definitions above.\<close>

definition sample_market :: "string \<Rightarrow> MarketCategory \<Rightarrow> rat \<Rightarrow> rat \<Rightarrow> market" where
  "sample_market ident cat price score =
     \<lparr>market_id = ident, question = ''Will it happen?'', category = cat,
      current_price = price, no_price = 1 - price, volume_24h = 1000, liquidity = 500,
      spread_pct = 2, days_until_resolution = Some 30, edge_score = score,
      polymarket_url = None\<rparr>"

definition sample_agent :: "string \<Rightarrow> (market \<Rightarrow> bool) \<Rightarrow> (market \<Rightarrow> rat) \<Rightarrow> agent" where
  "sample_agent nm can prob =
     \<lparr>agent_name = nm, can_analyze = can,
      estimate_of = (\<lambda>m. \<lparr>est_probability = prob m, est_confidence = 60,
                           est_low = prob m - 1 / 10, est_high = prob m + 1 / 10,
                           est_strength = Moderate, est_reasoning = ''placeholder'',
                           est_key_risks = [], est_catalysts = []\<rparr>)\<rparr>"

definition sample_orchestrator :: orchestrator where
  "sample_orchestrator =
     \<lparr>agents = [sample_agent ''PoliticsAgent'' (\<lambda>m. category m = Politics) (\<lambda>m. 3 / 5),
                sample_agent ''CryptoAgent'' (\<lambda>m. category m = Crypto) (\<lambda>m. 7 / 10),
                sample_agent ''SecondPoliticsAgent'' (\<lambda>m. category m = Politics) (\<lambda>m. 1)],
      default_agent = sample_agent ''DefaultAgent'' (\<lambda>m. True) current_price,
      deadband = 1 / 20\<rparr>"

definition sample_batch :: "market list" where
  "sample_batch =
     [sample_market ''m1'' Politics (1 / 2) 50,
      sample_market ''m2'' Crypto (9 / 10) 80,
      sample_market ''m3'' Science (2 / 5) 20]"

declare show_nat.simps [simp del]

declare bit_length.simps [simp del]

section \<open>Properties\<close>

subsection \<open>ScoreBar\<close>

lemma round_to_double_not_NaN: "round_to_double q \<noteq> NaN"
  by (simp add: round_to_double_def Let_def signed_inf_def signed_zero_def)

lemma fdiv_not_NaN:
  "v \<noteq> NaN \<Longrightarrow> js_lt (Finite 0) mx \<Longrightarrow> \<not> (is_inf v \<and> is_inf mx) \<Longrightarrow> fdiv v mx \<noteq> NaN"
  by (cases v; cases mx)
    (simp_all add: fdiv_def js_lt_def round_to_double_not_NaN signed_inf_def signed_zero_def)

lemma fmul_not_NaN: "x \<noteq> NaN \<Longrightarrow> fmul x (Finite 100) \<noteq> NaN"
  by (cases x) (simp_all add: fmul_def round_to_double_not_NaN signed_inf_def signed_zero_def)

lemma Math_max_zero:
  "x \<noteq> NaN \<Longrightarrow> Math_max (Finite 0) x = PosInf \<or> (\<exists>q. Math_max (Finite 0) x = Finite q \<and> 0 \<le> q)"
  by (cases x) (auto simp add: Math_max_def js_lt_def)

lemma Math_min_hundred:
  "y = PosInf \<or> (\<exists>q. y = Finite q \<and> 0 \<le> q) \<Longrightarrow>
     \<exists>q. Math_min (Finite 100) y = Finite q \<and> 0 \<le> q \<and> q \<le> 100"
  by (auto simp add: Math_min_def js_lt_def)

lemma percentage_finite:
  assumes "v \<noteq> NaN" "js_lt (Finite 0) mx" "\<not> (is_inf v \<and> is_inf mx)"
  shows "\<exists>q. percentage v mx = Finite q \<and> 0 \<le> q \<and> q \<le> 100"
  unfolding percentage_def
  by (intro Math_min_hundred Math_max_zero fmul_not_NaN fdiv_not_NaN assms)

lemma colorClass_finite:
  "(colorClass (Finite q) = ''high'') = (70 \<le> q)
   \<and> (colorClass (Finite q) = ''medium'') = (40 \<le> q \<and> q < 70)
   \<and> (colorClass (Finite q) = ''low'') = (q < 40)"
  by (auto simp add: colorClass_def js_ge_def js_lt_def)

lemma ScoreBar_width: "fill_width (ScoreBar v (Some mx)) = percentage v mx"
  by (simp add: ScoreBar_def Let_def)

lemma ScoreBar_class:
  "fill_class (ScoreBar v (Some mx)) = ''fill '' @ colorClass (percentage v mx)"
  by (simp add: ScoreBar_def Let_def)

text \<open>
  C10, as the claim states it, fails. \<^verbatim>\<open>NaN\<close> is a Number, and for the value \<^verbatim>\<open>NaN\<close>
  the width is \<^verbatim>\<open>NaN\<close>, which is not in \<open>[0, 100]\<close> (\<^verbatim>\<open>NaN >= 0\<close> is false); the
  class is then \<open>fill low\<close>. The same happens for the value \<^verbatim>\<open>Infinity\<close> with the
  positive max \<^verbatim>\<open>Infinity\<close>, whose quotient is \<^verbatim>\<open>NaN\<close>.
\<close>

theorem ScoreBar_not_a_number:
  "fill_width (ScoreBar NaN None) = NaN
   \<and> fill_class (ScoreBar NaN None) = ''fill low''
   \<and> \<not> js_ge (fill_width (ScoreBar NaN None)) (Finite 0)
   \<and> fill_width (ScoreBar PosInf (Some PosInf)) = NaN
   \<and> fill_class (ScoreBar PosInf (Some PosInf)) = ''fill low''"
  by (simp add: ScoreBar_def percentage_def fdiv_def fmul_def Math_max_def Math_min_def
        colorClass_def js_ge_def Let_def)

text \<open>
  C10, amended. For every Number \<open>value\<close> other than \<^verbatim>\<open>NaN\<close> and every \<open>max\<close> that is
  greater than 0, not both of them infinite: the fill width is
  \<^verbatim>\<open>Math.min(100, Math.max(0, (value / max) * 100))\<close> as double arithmetic computes it,
  and it is a number in \<open>[0, 100]\<close>, whatever the value (also outside \<open>[0, max]\<close>, also
  infinite); the colour class is \<open>high\<close> exactly when the width is at least 70,
  \<open>medium\<close> exactly when it is at least 40 and below 70, and \<open>low\<close> exactly when it is
  below 40. Leaving \<open>max\<close> out is the same as passing 100.
\<close>

theorem ScoreBar_clamped_and_classified:
  assumes "v \<noteq> NaN" and "js_lt (Finite 0) mx" and "\<not> (is_inf v \<and> is_inf mx)"
  shows "fill_width (ScoreBar v (Some mx))
           = Math_min (Finite 100) (Math_max (Finite 0) (fmul (fdiv v mx) (Finite 100)))
       \<and> (\<exists>q. fill_width (ScoreBar v (Some mx)) = Finite q \<and> 0 \<le> q \<and> q \<le> 100
              \<and> (fill_class (ScoreBar v (Some mx)) = ''fill high'') = (70 \<le> q)
              \<and> (fill_class (ScoreBar v (Some mx)) = ''fill medium'')
                   = (40 \<le> q \<and> q < 70)
              \<and> (fill_class (ScoreBar v (Some mx)) = ''fill low'') = (q < 40))
       \<and> ScoreBar v None = ScoreBar v (Some (Finite 100))"
proof -
  from assms obtain q where q: "percentage v mx = Finite q" "0 \<le> q" "q \<le> 100"
    using percentage_finite by blast
  have w: "fill_width (ScoreBar v (Some mx)) = Finite q"
    by (simp add: ScoreBar_width q)
  have c: "fill_class (ScoreBar v (Some mx)) = ''fill '' @ colorClass (Finite q)"
    by (simp add: ScoreBar_class q)
  have cls: "(fill_class (ScoreBar v (Some mx)) = ''fill high'') = (70 \<le> q)"
    "(fill_class (ScoreBar v (Some mx)) = ''fill medium'') = (40 \<le> q \<and> q < 70)"
    "(fill_class (ScoreBar v (Some mx)) = ''fill low'') = (q < 40)"
    using colorClass_finite [of q] by (simp_all add: c)
  have f: "fill_width (ScoreBar v (Some mx))
           = Math_min (Finite 100) (Math_max (Finite 0) (fmul (fdiv v mx) (Finite 100)))"
    by (simp add: ScoreBar_width percentage_def)
  have dflt: "ScoreBar v None = ScoreBar v (Some (Finite 100))"
    by (simp add: ScoreBar_def)
  from w q(2,3) cls f dflt show ?thesis by metis
qed

lemma round_half_even_eval:
  "\<lfloor>x\<rfloor> = f \<Longrightarrow>
     round_half_even x
       = (if x - of_int f < 1 / 2 then f else if 1 / 2 < x - of_int f then f + 1
          else if even f then f else f + 1)"
  by (simp add: round_half_even_def Let_def)

lemma round_to_double_eval:
  assumes "0 < q" and "ilog2 q = k" and "e = max k (- 1022) - 52"
    and "round_half_even (q / pow2 e) = m" and "0 < m"
    and "of_int m * pow2 e < pow2 1024"
  shows "round_to_double q = Finite (of_int m * pow2 e)"
proof -
  from assms(1) have a: "\<bar>q\<bar> = q" by simp
  from assms(2,3) have e: "max (ilog2 q) (- 1022) - 52 = e"
    by simp
  show ?thesis
    unfolding round_to_double_def Let_def a e assms(4) using assms(1,5,6) by simp
qed

lemma double_55_100:
  "round_to_double (55 / 100) = Finite (2476979795053773 / 4503599627370496)"
proof -
  have k: "ilog2 (55 / 100) = - 1"
    by (simp add: ilog2_def bit_length.simps)
  have fl: "\<lfloor>(55 / 100) / pow2 (- 53) :: rat\<rfloor> = 4953959590107545"
    by (simp add: pow2_def floor_eq_iff)
  have m: "round_half_even ((55 / 100) / pow2 (- 53)) = 4953959590107546"
    unfolding round_half_even_eval [OF fl] by (simp add: pow2_def)
  have "round_to_double (55 / 100) = Finite (of_int 4953959590107546 * pow2 (- 53))"
    by (rule round_to_double_eval [OF _ k _ m]) (simp_all add: pow2_def)
  then show ?thesis
    by (simp add: pow2_def)
qed

lemma double_55_percent:
  "round_to_double (2476979795053773 / 4503599627370496 * 100) = Finite (7740561859543041 / 140737488355328)"
proof -
  have fl0: "\<lfloor>2476979795053773 / 4503599627370496 * 100 :: rat\<rfloor> = 55"
    by (simp add: floor_eq_iff)
  have k: "ilog2 (2476979795053773 / 4503599627370496 * 100) = 5"
    unfolding ilog2_def fl0 by (simp add: bit_length.simps)
  have fl: "\<lfloor>(2476979795053773 / 4503599627370496 * 100) / pow2 (- 47) :: rat\<rfloor> = 7740561859543040"
    by (simp add: pow2_def floor_eq_iff)
  have m: "round_half_even ((2476979795053773 / 4503599627370496 * 100) / pow2 (- 47)) = 7740561859543041"
    unfolding round_half_even_eval [OF fl] by (simp add: pow2_def)
  have "round_to_double (2476979795053773 / 4503599627370496 * 100) = Finite (of_int 7740561859543041 * pow2 (- 47))"
    by (rule round_to_double_eval [OF _ k _ m]) (simp_all add: pow2_def)
  then show ?thesis
    by (simp add: pow2_def)
qed

lemma double_7_10:
  "round_to_double (7 / 10) = Finite (3152519739159347 / 4503599627370496)"
proof -
  have k: "ilog2 (7 / 10) = - 1"
    by (simp add: ilog2_def bit_length.simps)
  have fl: "\<lfloor>(7 / 10) / pow2 (- 53) :: rat\<rfloor> = 6305039478318694"
    by (simp add: pow2_def floor_eq_iff)
  have m: "round_half_even ((7 / 10) / pow2 (- 53)) = 6305039478318694"
    unfolding round_half_even_eval [OF fl] by (simp add: pow2_def)
  have "round_to_double (7 / 10) = Finite (of_int 6305039478318694 * pow2 (- 53))"
    by (rule round_to_double_eval [OF _ k _ m]) (simp_all add: pow2_def)
  then show ?thesis
    by (simp add: pow2_def)
qed

lemma double_07_by_1:
  "round_to_double (3152519739159347 / 4503599627370496 / 1) = Finite (3152519739159347 / 4503599627370496)"
proof -
  have k: "ilog2 (3152519739159347 / 4503599627370496 / 1) = - 1"
    by (simp add: ilog2_def bit_length.simps)
  have fl: "\<lfloor>(3152519739159347 / 4503599627370496 / 1) / pow2 (- 53) :: rat\<rfloor> = 6305039478318694"
    by (simp add: pow2_def floor_eq_iff)
  have m: "round_half_even ((3152519739159347 / 4503599627370496 / 1) / pow2 (- 53)) = 6305039478318694"
    unfolding round_half_even_eval [OF fl] by (simp add: pow2_def)
  have "round_to_double (3152519739159347 / 4503599627370496 / 1) = Finite (of_int 6305039478318694 * pow2 (- 53))"
    by (rule round_to_double_eval [OF _ k _ m]) (simp_all add: pow2_def)
  then show ?thesis
    by (simp add: pow2_def)
qed

lemma double_07_percent:
  "round_to_double (3152519739159347 / 4503599627370496 * 100) = Finite (70)"
proof -
  have fl0: "\<lfloor>3152519739159347 / 4503599627370496 * 100 :: rat\<rfloor> = 69"
    by (simp add: floor_eq_iff)
  have k: "ilog2 (3152519739159347 / 4503599627370496 * 100) = 6"
    unfolding ilog2_def fl0 by (simp add: bit_length.simps)
  have fl: "\<lfloor>(3152519739159347 / 4503599627370496 * 100) / pow2 (- 46) :: rat\<rfloor> = 4925812092436479"
    by (simp add: pow2_def floor_eq_iff)
  have m: "round_half_even ((3152519739159347 / 4503599627370496 * 100) / pow2 (- 46)) = 4925812092436480"
    unfolding round_half_even_eval [OF fl] by (simp add: pow2_def)
  have "round_to_double (3152519739159347 / 4503599627370496 * 100) = Finite (of_int 4925812092436480 * pow2 (- 46))"
    by (rule round_to_double_eval [OF _ k _ m]) (simp_all add: pow2_def)
  then show ?thesis
    by (simp add: pow2_def)
qed

lemma percentage_55:
  "percentage (Finite 55) (Finite 100) = Finite (7740561859543041 / 140737488355328)"
proof -
  have d: "fdiv (Finite 55) (Finite 100) = round_to_double (55 / 100)"
    by (simp add: fdiv_def)
  have p: "fmul (Finite (2476979795053773 / 4503599627370496)) (Finite 100)
             = round_to_double (2476979795053773 / 4503599627370496 * 100)"
    by (simp add: fmul_def)
  show ?thesis
    unfolding percentage_def d double_55_100 p double_55_percent
    by (simp add: Math_max_def Math_min_def js_lt_def)
qed

lemma percentage_07:
  "percentage (Finite (3152519739159347 / 4503599627370496)) (Finite 1) = Finite 70"
proof -
  have d: "fdiv (Finite (3152519739159347 / 4503599627370496)) (Finite 1)
             = round_to_double (3152519739159347 / 4503599627370496 / 1)"
    by (simp add: fdiv_def)
  have p: "fmul (Finite (3152519739159347 / 4503599627370496)) (Finite 100)
             = round_to_double (3152519739159347 / 4503599627370496 * 100)"
    by (simp add: fmul_def)
  show ?thesis
    unfolding percentage_def d double_07_by_1 p double_07_percent
    by (simp add: Math_max_def Math_min_def js_lt_def)
qed

text \<open>
  The rounding of the two operations shows in the width. At value 55 and the default
  max, \<^verbatim>\<open>55 / 100\<close> is the double \<open>2476979795053773 / 2^52\<close> and its product with 100
  rounds to \<open>7740561859543041 / 2^47\<close>, which prints as \<^verbatim>\<open>55.00000000000001\<close>. The
  double nearest to 0.7 lies below 0.7, and yet at max 1 its product with 100 rounds to
  70 exactly, so the class is \<open>fill high\<close>.
\<close>

theorem ScoreBar_clamped_and_classified_witness:
  "Finite 55 \<noteq> NaN \<and> js_lt (Finite 0) (Finite 100)
   \<and> \<not> (is_inf (Finite 55) \<and> is_inf (Finite 100))
   \<and> fill_width (ScoreBar (Finite 55) None) = Finite (7740561859543041 / 140737488355328)
   \<and> fill_class (ScoreBar (Finite 55) None) = ''fill medium''
   \<and> round_to_double (7 / 10) = Finite (3152519739159347 / 4503599627370496)
   \<and> fill_width (ScoreBar (Finite (3152519739159347 / 4503599627370496)) (Some (Finite 1)))
      = Finite 70
   \<and> fill_class (ScoreBar (Finite (3152519739159347 / 4503599627370496)) (Some (Finite 1)))
      = ''fill high''"
proof -
  have w1: "fill_width (ScoreBar (Finite 55) (Some (Finite 100)))
              = Finite (7740561859543041 / 140737488355328)"
    by (simp add: ScoreBar_width percentage_55)
  have c1: "fill_class (ScoreBar (Finite 55) (Some (Finite 100))) = ''fill medium''"
    by (simp add: ScoreBar_class percentage_55 colorClass_def js_ge_def js_lt_def)
  have w2: "fill_width (ScoreBar (Finite (3152519739159347 / 4503599627370496))
              (Some (Finite 1))) = Finite 70"
    by (simp add: ScoreBar_width percentage_07)
  have c2: "fill_class (ScoreBar (Finite (3152519739159347 / 4503599627370496))
              (Some (Finite 1))) = ''fill high''"
    by (simp add: ScoreBar_class percentage_07 colorClass_def js_ge_def js_lt_def)
  have "Finite 55 \<noteq> NaN" and "js_lt (Finite 0) (Finite 100)"
    and "\<not> (is_inf (Finite 55) \<and> is_inf (Finite 100))"
    by (simp_all add: js_lt_def)
  from ScoreBar_clamped_and_classified [OF this]
  have d: "ScoreBar (Finite 55) None = ScoreBar (Finite 55) (Some (Finite 100))"
    by blast
  show ?thesis
    by (simp add: d w1 c1 w2 c2 double_7_10 js_lt_def)
qed

subsection \<open>OpportunityCard: the edge-type table\<close>

text \<open>
  C8. The claim asks for a dedicated label and colour for each of \<open>arbitrage\<close>,
  \<open>mispricing\<close>, \<open>temporal\<close>, \<open>volume_signal\<close> and \<open>liquidity_gap\<close>. The table has
  entries for four of them (and for \<open>correlation\<close>); \<open>temporal\<close>, which the README lists
  among the edge types, has none and is shown by the gray default with its raw name.
\<close>

theorem typeInfo_temporal_falls_back:
  "typeInfo ''temporal'' = \<lparr>label = ''temporal'', color = ''gray''\<rparr>
   \<and> typeInfo ''arbitrage'' = \<lparr>label = ''Arbitrage'', color = ''green''\<rparr>
   \<and> typeInfo ''mispricing'' = \<lparr>label = ''Mispricing'', color = ''yellow''\<rparr>
   \<and> typeInfo ''volume_signal'' = \<lparr>label = ''Volume Signal'', color = ''purple''\<rparr>
   \<and> typeInfo ''liquidity_gap'' = \<lparr>label = ''Liquidity Gap'', color = ''blue''\<rparr>"
  by (simp add: typeInfo_def EDGE_TYPE_LABELS_def)

subsection \<open>The list endpoints: which parameters reach the URL\<close>














subsection \<open>request: what is thrown and what is returned\<close>

text \<open>
  C7, as the claim states it, fails: an ok response whose body is not JSON makes
  \<open>request\<close> throw (the rejection of \<^verbatim>\<open>response.json()\<close> is not caught on that path);
  a \<^verbatim>\<open>detail\<close> that is present but falsy (here the empty string) is replaced by
  \<^verbatim>\<open>Request failed: <status>\<close>; and an error body that is the JSON value \<^verbatim>\<open>null\<close> makes
  the property access throw a TypeError.
\<close>

theorem request_ok_body_not_json_throws:
  "ok \<lparr>status = 200, json = None\<rparr>
   \<and> snd (request (\<lambda>c. Response \<lparr>status = 200, json = None\<rparr>) (\<lambda>r. [])
            ''/api'' ''/stats'' ''GET'')
       = Inl SyntaxError
   \<and> \<not> ok \<lparr>status = 500, json = Some (JObj [(''detail'', JStr [])])\<rparr>
   \<and> snd (request (\<lambda>c. Response \<lparr>status = 500, json = Some (JObj [(''detail'', JStr [])])\<rparr>)
            (\<lambda>r. []) ''/api'' ''/stats'' ''GET'')
       = Inl (Error ''Request failed: 500'')
   \<and> \<not> ok \<lparr>status = 500, json = Some JNull\<rparr>
   \<and> snd (request (\<lambda>c. Response \<lparr>status = 500, json = Some JNull\<rparr>) (\<lambda>r. [])
            ''/api'' ''/stats'' ''GET'')
       = Inl TypeError"
  by (simp add: ok_def request_def show_nat.simps Let_def)

text \<open>
  C7, amended. When \<open>fetch\<close> yields a response: if it is not ok and its body is not
  the JSON value \<open>null\<close>, \<open>request\<close> throws an \<open>Error\<close> whose message is
  \<open>Request failed: <status>\<close> when the body has no truthy \<open>detail\<close> (also when the body
  is not JSON or is no object), and the body's \<open>detail\<close> converted to a string when
  that is truthy and the conversion yields a string; if it is ok, \<open>request\<close> returns
  the parsed body when the body is JSON and throws the SyntaxError of
  \<^verbatim>\<open>response.json()\<close> when it is not.
\<close>

theorem request_outcomes:
  assumes "fetch \<lparr>url = API_BASE @ endpoint, http_method = meth\<rparr> = Response r"
  shows "(\<not> ok r \<and> json r \<noteq> Some JNull
            \<and> (detail_of r = None \<or> (\<exists>d. detail_of r = Some d \<and> \<not> truthy_json d)) \<longrightarrow>
            snd (request fetch ns API_BASE endpoint meth)
              = Inl (Error (''Request failed: '' @ show_nat (status r))))
       \<and> (\<not> ok r \<and> detail_of r = Some d \<and> truthy_json d \<and> ToString_json ns d = Inr s \<longrightarrow>
            snd (request fetch ns API_BASE endpoint meth) = Inl (Error s))
       \<and> (ok r \<longrightarrow>
            snd (request fetch ns API_BASE endpoint meth)
              = (case json r of Some v \<Rightarrow> Inr v | None \<Rightarrow> Inl SyntaxError))"
proof -
  have gd: "get_detail b = Inr (detail_of r)" if "json r = Some b" "b \<noteq> JNull" for b
    using that by (cases b) (simp_all add: detail_of_def)
  have fallback: "snd (request fetch ns API_BASE endpoint meth)
              = Inl (Error (''Request failed: '' @ show_nat (status r)))"
    if "\<not> ok r" "json r \<noteq> Some JNull"
       "detail_of r = None \<or> (\<exists>d. detail_of r = Some d \<and> \<not> truthy_json d)"
  proof (cases "json r")
    case None
    with that assms show ?thesis
      by (simp add: request_def Let_def)
  next
    case (Some b)
    with that have "b \<noteq> JNull" by auto
    with Some have "get_detail b = Inr (detail_of r)" by (rule gd)
    with Some that assms show ?thesis
      by (auto simp add: request_def Let_def)
  qed
  have detail: "snd (request fetch ns API_BASE endpoint meth) = Inl (Error s)"
    if "\<not> ok r" "detail_of r = Some d" "truthy_json d" "ToString_json ns d = Inr s"
  proof -
    from that(2) obtain b where b: "json r = Some b" "b \<noteq> JNull"
      by (auto simp add: detail_of_def split: option.splits json_value.splits)
    then have "get_detail b = Inr (detail_of r)" by (rule gd)
    with b that assms show ?thesis
      by (simp add: request_def Let_def)
  qed
  have good: "snd (request fetch ns API_BASE endpoint meth)
              = (case json r of Some v \<Rightarrow> Inr v | None \<Rightarrow> Inl SyntaxError)"
    if "ok r"
    using that assms by (simp add: request_def Let_def split: option.splits)
  from fallback detail good show ?thesis by blast
qed

text \<open>
  A 404 with a \<open>detail\<close>, a 502 whose body is not JSON, and a 200 with a JSON body.
\<close>

theorem request_outcomes_witness:
  "snd (request (\<lambda>c. Response
       \<lparr>status = 404, json = Some (JObj [(''detail'', JStr ''Market not found'')])\<rparr>)
     (\<lambda>r. []) ''/api'' ''/markets/x'' ''GET'') = Inl (Error ''Market not found'')
   \<and> snd (request (\<lambda>c. Response \<lparr>status = 502, json = None\<rparr>)
       (\<lambda>r. []) ''/api'' ''/markets/x'' ''GET'') = Inl (Error ''Request failed: 502'')
   \<and> snd (request (\<lambda>c. Response \<lparr>status = 200, json = Some (JArr [])\<rparr>)
       (\<lambda>r. []) ''/api'' ''/markets'' ''GET'') = Inr (JArr [])"
  using
    request_outcomes [where fetch = "\<lambda>c. Response
       \<lparr>status = 404, json = Some (JObj [(''detail'', JStr ''Market not found'')])\<rparr>"
       and API_BASE = "''/api''" and endpoint = "''/markets/x''" and meth = "''GET''"
       and d = "JStr ''Market not found''" and ns = "\<lambda>r. []" and s = "''Market not found''"]
    request_outcomes [where fetch = "\<lambda>c. Response \<lparr>status = 502, json = None\<rparr>"
       and API_BASE = "''/api''" and endpoint = "''/markets/x''" and meth = "''GET''"
       and ns = "\<lambda>r. []"]
    request_outcomes [where fetch = "\<lambda>c. Response \<lparr>status = 200, json = Some (JArr [])\<rparr>"
       and API_BASE = "''/api''" and endpoint = "''/markets''" and meth = "''GET''"
       and ns = "\<lambda>r. []"]
  by (simp add: ok_def detail_of_def show_nat.simps)

text \<open>
  A \<open>detail\<close> that is an object with an own \<open>toString\<close> property cannot be converted:
  \<^verbatim>\<open>new Error(detail)\<close> throws a TypeError instead of the \<open>Error\<close>.
\<close>

lemma detail_with_own_toString_throws:
  "snd (request (\<lambda>c. Response
       \<lparr>status = 500, json = Some (JObj [(''detail'', JObj [(''toString'', JStr ''x'')])])\<rparr>)
     (\<lambda>r. []) ''/api'' ''/stats'' ''GET'') = Inl TypeError"
  by (simp add: ok_def request_def Let_def)


subsection \<open>App: the refreshing flag, the buttons and the poll\<close>

lemma step_one_handler:
  assumes "one_handler s" and "\<And>k. e = PollTick k \<Longrightarrow> status_pending s = []"
  shows "one_handler (step e s)"
proof (cases e)
  case ClickRefresh
  with assms show ?thesis
    by (auto simp add: one_handler_def refresh_button_disabled_def handleRefresh_def)
next
  case ClickLoadDemo
  with assms show ?thesis
    by (auto simp add: one_handler_def load_demo_button_disabled_def handleLoadDemo_def)
next
  case ClickEmptyStateLoadDemo
  with assms show ?thesis
    by (auto simp add: one_handler_def handleLoadDemo_def)
next
  case (RefreshDataSettled r)
  with assms show ?thesis
    by (cases r) (auto simp add: one_handler_def Let_def)
next
  case (PollTick k)
  with assms show ?thesis
    by (auto simp add: one_handler_def)
next
  case (StatusSettled k r)
  show ?thesis
  proof (cases "k \<in> set (status_pending s)")
    case False
    with StatusSettled assms show ?thesis by simp
  next
    case True
    with assms(1) have sp: "status_pending s = [k]" and tm: "timers s = [k]"
      and aw: "awaiting_refresh s = 0" and rf: "refreshing s"
      unfolding one_handler_def
      by (cases "status_pending s"; cases "timers s"; auto)+
    with StatusSettled show ?thesis
      by (cases r) (auto simp add: one_handler_def Let_def fetchData_def)
  qed
next
  case (LoadDemoSettled r)
  with assms show ?thesis
    by (cases r) (auto simp add: one_handler_def Let_def fetchData_def)
next
  case (FetchDataSettled r)
  with assms show ?thesis
    by (cases r) (auto simp add: one_handler_def Let_def)
qed

lemma run_one_handler:
  "one_handler s \<Longrightarrow> no_overlap evs s \<Longrightarrow> one_handler (run evs s)"
proof (induction evs arbitrary: s)
  case Nil
  then show ?case by simp
next
  case (Cons e evs)
  from Cons.prems have "one_handler (step e s)"
    by (intro step_one_handler) (auto split: event.splits)
  moreover from Cons.prems have "no_overlap evs (step e s)" by simp
  ultimately show ?case using Cons.IH by simp
qed

lemma initial_one_handler: "one_handler initial_app"
  by (simp add: one_handler_def initial_app_def fetchData_def)


lemma click_while_refreshing:
  "refreshing s \<Longrightarrow> refresh_button_disabled s \<and> load_demo_button_disabled s
      \<and> step ClickRefresh s = s \<and> step ClickLoadDemo s = s"
  by (simp add: refresh_button_disabled_def load_demo_button_disabled_def)

lemma poll_still_loading:
  assumes "timers s = [k]" "status_pending s = []"
  shows "run [PollTick k, StatusSettled k (Resolved True)] s
           = s\<lparr>calls := calls s @ [CallGetStatus]\<rparr>"
  using assms by (cases s) (simp add: Let_def)

lemma poll_done:
  assumes "timers s = [k]" "status_pending s = []"
  shows "run [PollTick k, StatusSettled k (Resolved False)] s
           = s\<lparr>calls := calls s @ [CallGetStatus, CallFetchData], timers := [],
                refreshing := False, loading := True, error := None,
                fetching := fetching s + 1\<rparr>"
  using assms by (cases s) (simp add: Let_def fetchData_def)

lemma poll_failed:
  assumes "timers s = [k]" "status_pending s = []"
  shows "run [PollTick k, StatusSettled k (Rejected msg)] s
           = s\<lparr>calls := calls s @ [CallGetStatus], timers := [],
                refreshing := False, error := Some msg\<rparr>"
  using assms by (cases s) (simp add: Let_def)

lemma refresh_failed:
  "awaiting_refresh s = 1 \<Longrightarrow>
     step (RefreshDataSettled (Rejected msg)) s
       = s\<lparr>awaiting_refresh := 0, refreshing := False, error := Some msg\<rparr>"
  by (simp add: Let_def)

lemma flag_lowered_by:
  "refreshing s \<Longrightarrow> \<not> refreshing (step e s) \<Longrightarrow>
     (\<exists>k. e = StatusSettled k (Resolved False)) \<or> (\<exists>k m. e = StatusSettled k (Rejected m))
       \<or> (\<exists>m. e = RefreshDataSettled (Rejected m))"
  by (cases e)
     (auto simp add: refresh_button_disabled_def load_demo_button_disabled_def
        handleRefresh_def handleLoadDemo_def fetchData_def Let_def
        split: settled.splits if_splits)

lemma idle_step:
  "idle s \<Longrightarrow> e \<noteq> ClickRefresh \<Longrightarrow>
     idle (step e s) \<and> refresh_calls (step e s) = refresh_calls s"
  by (cases e)
     (auto simp add: idle_def refresh_calls_def load_demo_button_disabled_def
        handleLoadDemo_def fetchData_def Let_def split: settled.splits)

lemma idle_run:
  "idle s \<Longrightarrow> ClickRefresh \<notin> set evs \<Longrightarrow>
     idle (run evs s) \<and> refresh_calls (run evs s) = refresh_calls s"
proof (induction evs arbitrary: s)
  case Nil
  then show ?case by simp
next
  case (Cons e evs)
  then have "idle (step e s)" "refresh_calls (step e s) = refresh_calls s"
    using idle_step [of s e] by auto
  with Cons show ?case by simp
qed

lemma one_handler_idle: "one_handler s \<Longrightarrow> \<not> refreshing s \<Longrightarrow> idle s"
  by (auto simp add: one_handler_def idle_def)

text \<open>
  C6, as the claim states it, fails: \<open>refreshing\<close> is set to false not only after a
  status that reports \<open>is_loading = false\<close>. After the mount's \<open>fetchData\<close> has
  settled, a click on Refresh Data and an accepted refresh request, one rejected status
  request clears the timer and sets \<open>refreshing\<close> to false with no refetch; the buttons
  are enabled again, and a further click issues a second refresh request although no
  status ever reported the first one finished.
\<close>

theorem refreshing_cleared_on_failed_poll:
  "no_overlap [FetchDataSettled (Resolved ()), ClickRefresh, RefreshDataSettled (Resolved ()),
               PollTick 0, StatusSettled 0 (Rejected ''Failed to fetch''), ClickRefresh]
     initial_app
   \<and> refreshing (run [FetchDataSettled (Resolved ()), ClickRefresh,
                      RefreshDataSettled (Resolved ()), PollTick 0] initial_app)
   \<and> run [FetchDataSettled (Resolved ()), ClickRefresh, RefreshDataSettled (Resolved ()),
           PollTick 0, StatusSettled 0 (Rejected ''Failed to fetch'')] initial_app
      = \<lparr>loading = False, refreshing = False, error = Some ''Failed to fetch'',
          awaiting_refresh = 0, timers = [], next_timer = 1, status_pending = [],
          awaiting_demo = 0, fetching = 0,
          calls = [CallFetchData, CallRefreshData, CallGetStatus]\<rparr>
   \<and> calls (run [FetchDataSettled (Resolved ()), ClickRefresh,
                 RefreshDataSettled (Resolved ()), PollTick 0,
                 StatusSettled 0 (Rejected ''Failed to fetch''), ClickRefresh] initial_app)
      = [CallFetchData, CallRefreshData, CallGetStatus, CallRefreshData]"
  by (simp add: initial_app_def fetchData_def handleRefresh_def
        refresh_button_disabled_def Let_def)

text \<open>
  C6, amended. In every state \<open>s\<close> the component reaches from mounting while every
  status response arrives before the next tick:
  \<^item> \<open>refreshing\<close> is true exactly while one \<open>handleRefresh\<close> awaits its refresh
    request or its poll timer is live (never both, never two);
  \<^item> while \<open>refreshing\<close> is true, both header buttons are disabled and a click on either
    changes nothing, so no second refresh request is issued;
  \<^item> a poll (a tick and its status response) that reports \<open>is_loading = true\<close> only
    logs the status request; one that reports \<open>is_loading = false\<close> clears the timer,
    sets \<open>refreshing\<close> to false and calls \<open>fetchData\<close> once; one whose status request
    is rejected clears the timer, sets \<open>refreshing\<close> to false and records the error, with
    no refetch;
  \<^item> a rejected refresh request sets \<open>refreshing\<close> to false and records the error;
  \<^item> a settled status request or a rejected refresh request is the only event that takes
    \<open>refreshing\<close> from true to false;
  \<^item> once \<open>refreshing\<close> is false it stays false, and no refresh request and no status
    request is issued, until Refresh Data is clicked again.
\<close>

theorem refreshing_flag_protocol:
  assumes "no_overlap evs initial_app" and "s = run evs initial_app"
  shows "refreshing s = (awaiting_refresh s = 1 \<or> timers s \<noteq> [])
       \<and> awaiting_refresh s \<le> 1 \<and> length (timers s) \<le> 1
       \<and> \<not> (awaiting_refresh s = 1 \<and> timers s \<noteq> [])
       \<and> (refreshing s \<longrightarrow>
            refresh_button_disabled s \<and> load_demo_button_disabled s
            \<and> step ClickRefresh s = s \<and> step ClickLoadDemo s = s)
       \<and> (timers s = [k] \<and> status_pending s = [] \<longrightarrow>
            run [PollTick k, StatusSettled k (Resolved True)] s
              = s\<lparr>calls := calls s @ [CallGetStatus]\<rparr>
            \<and> run [PollTick k, StatusSettled k (Resolved False)] s
                = s\<lparr>calls := calls s @ [CallGetStatus, CallFetchData], timers := [],
                     refreshing := False, loading := True, error := None,
                     fetching := fetching s + 1\<rparr>
            \<and> run [PollTick k, StatusSettled k (Rejected msg)] s
                = s\<lparr>calls := calls s @ [CallGetStatus], timers := [],
                     refreshing := False, error := Some msg\<rparr>)
       \<and> (awaiting_refresh s = 1 \<longrightarrow>
            step (RefreshDataSettled (Rejected msg)) s
              = s\<lparr>awaiting_refresh := 0, refreshing := False, error := Some msg\<rparr>)
       \<and> (refreshing s \<and> \<not> refreshing (step e s) \<longrightarrow>
            (\<exists>k. e = StatusSettled k (Resolved False))
            \<or> (\<exists>k m. e = StatusSettled k (Rejected m))
            \<or> (\<exists>m. e = RefreshDataSettled (Rejected m)))
       \<and> (\<not> refreshing s \<and> ClickRefresh \<notin> set later \<longrightarrow>
            \<not> refreshing (run later s) \<and> refresh_calls (run later s) = refresh_calls s)"
proof -
  have oh: "one_handler s"
    using assms run_one_handler [OF initial_one_handler] by simp
  then have inv: "refreshing s = (awaiting_refresh s = 1 \<or> timers s \<noteq> [])"
    "awaiting_refresh s \<le> 1" "length (timers s) \<le> 1"
    "\<not> (awaiting_refresh s = 1 \<and> timers s \<noteq> [])"
    by (simp_all add: one_handler_def)
  have quiet: "\<not> refreshing (run later s) \<and> refresh_calls (run later s) = refresh_calls s"
    if "\<not> refreshing s" "ClickRefresh \<notin> set later"
    using idle_run [OF one_handler_idle [OF oh that(1)] that(2)] by (simp add: idle_def)
  from inv quiet click_while_refreshing [of s] poll_still_loading [of s k]
    poll_done [of s k] poll_failed [of s k msg] refresh_failed [of s msg]
    flag_lowered_by [of s e]
  show ?thesis
    by blast
qed

theorem refreshing_flag_protocol_witness:
  "no_overlap [FetchDataSettled (Resolved ()), ClickRefresh, RefreshDataSettled (Resolved ()),
               PollTick 0, StatusSettled 0 (Resolved True)] initial_app
   \<and> refreshing (run [FetchDataSettled (Resolved ()), ClickRefresh,
                      RefreshDataSettled (Resolved ()), PollTick 0,
                      StatusSettled 0 (Resolved True)] initial_app)
   \<and> step ClickRefresh (run [FetchDataSettled (Resolved ()), ClickRefresh,
                      RefreshDataSettled (Resolved ()), PollTick 0,
                      StatusSettled 0 (Resolved True)] initial_app)
      = run [FetchDataSettled (Resolved ()), ClickRefresh,
                      RefreshDataSettled (Resolved ()), PollTick 0,
                      StatusSettled 0 (Resolved True)] initial_app
   \<and> run [PollTick 0, StatusSettled 0 (Resolved False)]
        (run [FetchDataSettled (Resolved ()), ClickRefresh,
                      RefreshDataSettled (Resolved ()), PollTick 0,
                      StatusSettled 0 (Resolved True)] initial_app)
      = \<lparr>loading = True, refreshing = False, error = None, awaiting_refresh = 0,
          timers = [], next_timer = 1, status_pending = [], awaiting_demo = 0, fetching = 1,
          calls = [CallFetchData, CallRefreshData, CallGetStatus, CallGetStatus,
                   CallFetchData]\<rparr>"
  using refreshing_flag_protocol
          [of "[FetchDataSettled (Resolved ()), ClickRefresh, RefreshDataSettled (Resolved ()),
                PollTick 0, StatusSettled 0 (Resolved True)]"
              "run [FetchDataSettled (Resolved ()), ClickRefresh,
                    RefreshDataSettled (Resolved ()), PollTick 0,
                    StatusSettled 0 (Resolved True)] initial_app"
              0 "''x''" "StatusSettled 0 (Resolved False)" "[]"]
  by (simp add: initial_app_def fetchData_def handleRefresh_def
        refresh_button_disabled_def Let_def)

text \<open>
  Why the responses must not overlap the ticks: when a status request is still in flight
  at the next tick, both callbacks may see \<open>is_loading = false\<close>, and each calls
  \<open>fetchData\<close>.
\<close>

lemma overlapping_polls_refetch_twice:
  "\<not> no_overlap [FetchDataSettled (Resolved ()), ClickRefresh, RefreshDataSettled (Resolved ()),
       PollTick 0, PollTick 0, StatusSettled 0 (Resolved False),
       StatusSettled 0 (Resolved False)] initial_app
   \<and> calls (run [FetchDataSettled (Resolved ()), ClickRefresh,
       RefreshDataSettled (Resolved ()), PollTick 0, PollTick 0,
       StatusSettled 0 (Resolved False), StatusSettled 0 (Resolved False)] initial_app)
      = [CallFetchData, CallRefreshData, CallGetStatus, CallGetStatus, CallFetchData,
         CallFetchData]"
  by (simp add: initial_app_def fetchData_def handleRefresh_def
        refresh_button_disabled_def Let_def)

subsection \<open>The direction rule and the market listing\<close>

lemma analyze_all_map: "analyze_all orch ms = map (analyze_market orch) ms"
  by (induction ms) simp_all

lemma direction_for_cases:
  assumes "0 \<le> db"
  shows "(db < e \<longrightarrow> direction_for db e = BuyYes)
       \<and> (e < - db \<longrightarrow> direction_for db e = BuyNo)
       \<and> (\<not> db < e \<and> \<not> e < - db \<longrightarrow> direction_for db e = Hold)"
  using assms by (simp add: direction_for_def)

text \<open>
  C3 (against the prediction assembly modelled from the specification). With a
  deadband that is not negative, every prediction the orchestrator produces has
  \<open>edge = predicted_probability - current_price\<close> and a direction that follows it:
  \<open>buy_yes\<close> when the edge exceeds the deadband, \<open>buy_no\<close> when it is below the negated
  deadband, \<open>hold\<close> otherwise (an edge equal to the deadband or its negation is \<open>hold\<close>).
\<close>

theorem direction_follows_edge:
  assumes "0 \<le> deadband orch"
  shows "\<forall>p \<in> set (analyze_all orch ms).
           edge p = predicted_probability p - p_current_price p
           \<and> (deadband orch < edge p \<longrightarrow> direction p = BuyYes)
           \<and> (edge p < - deadband orch \<longrightarrow> direction p = BuyNo)
           \<and> (\<not> deadband orch < edge p \<and> \<not> edge p < - deadband orch \<longrightarrow> direction p = Hold)"
proof
  fix p assume "p \<in> set (analyze_all orch ms)"
  then obtain m where p: "p = analyze_market orch m"
    by (auto simp add: analyze_all_map)
  have e: "edge p = predicted_probability p - p_current_price p"
    and d: "direction p = direction_for (deadband orch) (edge p)"
    by (simp_all add: p analyze_market_def analyze_def make_prediction_def)
  from e d direction_for_cases [OF assms, of "edge p"]
  show "edge p = predicted_probability p - p_current_price p
           \<and> (deadband orch < edge p \<longrightarrow> direction p = BuyYes)
           \<and> (edge p < - deadband orch \<longrightarrow> direction p = BuyNo)
           \<and> (\<not> deadband orch < edge p \<and> \<not> edge p < - deadband orch \<longrightarrow> direction p = Hold)"
    by simp
qed

theorem direction_follows_edge_witness:
  "0 \<le> deadband sample_orchestrator
   \<and> map edge (analyze_all sample_orchestrator sample_batch) = [1 / 10, - (1 / 5), 0]
   \<and> map direction (analyze_all sample_orchestrator sample_batch) = [BuyYes, BuyNo, Hold]"
  using direction_follows_edge [of sample_orchestrator sample_batch]
  by (simp add: sample_batch_def sample_orchestrator_def sample_agent_def sample_market_def
        analyze_market_def analyze_def make_prediction_def direction_for_def)

text \<open>
  C5 (against the market listing modelled from the specification). A market passes a
  query exactly when it meets every filter the query carries: the filters are
  AND-combined, one left out constrains nothing, and \<open>min_score\<close> and \<open>min_volume\<close> are
  inclusive lower bounds. Every record listed is a record of the collection that passes,
  the listing is a subsequence of the collection (its order is kept), and without an
  offset it is the first \<open>limit\<close> records that pass. In particular \<open>limit = 10\<close> with at
  least ten passing records yields exactly the first ten of them, and on a batch of 50
  with no filter the first ten markets of the batch.
\<close>

theorem list_markets_filters_then_truncates:
  "passes_filters q m
     = ((\<forall>c. q_category q = Some c \<longrightarrow> category m = c)
        \<and> (\<forall>x. min_score q = Some x \<longrightarrow> x \<le> edge_score m)
        \<and> (\<forall>v. min_volume q = Some v \<longrightarrow> v \<le> volume_24h m))
   \<and> (\<forall>r \<in> set (list_markets ms q). r \<in> set ms \<and> passes_filters q r)
   \<and> subseq (list_markets ms q) ms
   \<and> (offset q = None \<longrightarrow>
        list_markets ms q
          = take (case limit q of None \<Rightarrow> 50 | Some n \<Rightarrow> n) (filter (passes_filters q) ms))
   \<and> (limit q = Some 10 \<and> offset q = None \<and> 10 \<le> length (filter (passes_filters q) ms) \<longrightarrow>
        length (list_markets ms q) = 10
        \<and> list_markets ms q = take 10 (filter (passes_filters q) ms))
   \<and> (limit q = Some 10 \<and> offset q = None \<and> q_category q = None \<and> min_score q = None
        \<and> min_volume q = None \<and> length ms = 50 \<longrightarrow>
        list_markets ms q = take 10 ms \<and> length (list_markets ms q) = 10)"
proof -
  have pf: "passes_filters q m
     = ((\<forall>c. q_category q = Some c \<longrightarrow> category m = c)
        \<and> (\<forall>x. min_score q = Some x \<longrightarrow> x \<le> edge_score m)
        \<and> (\<forall>v. min_volume q = Some v \<longrightarrow> v \<le> volume_24h m))"
    by (simp add: passes_filters_def split: option.splits)
  have mem: "\<forall>r \<in> set (list_markets ms q). r \<in> set ms \<and> passes_filters q r"
  proof
    fix r assume "r \<in> set (list_markets ms q)"
    then have "r \<in> set (filter (passes_filters q) ms)"
      unfolding list_markets_def by (meson in_set_dropD in_set_takeD)
    then show "r \<in> set ms \<and> passes_filters q r" by simp
  qed
  have sub: "subseq (list_markets ms q) ms"
  proof -
    have "subseq (list_markets ms q) (filter (passes_filters q) ms)"
      unfolding list_markets_def
      by (metis sublist_take sublist_drop sublist_imp_subseq subseq_order.trans)
    also have "subseq (filter (passes_filters q) ms) ms" by (rule subseq_filter_left)
    finally show ?thesis .
  qed
  have off: "list_markets ms q
          = take (case limit q of None \<Rightarrow> 50 | Some n \<Rightarrow> n) (filter (passes_filters q) ms)"
    if "offset q = None"
    using that by (simp add: list_markets_def)
  have ten: "length (list_markets ms q) = 10
        \<and> list_markets ms q = take 10 (filter (passes_filters q) ms)"
    if "limit q = Some 10" "offset q = None" "10 \<le> length (filter (passes_filters q) ms)"
    using that by (simp add: list_markets_def)
  have all: "filter (passes_filters q) ms = ms"
    if "q_category q = None" "min_score q = None" "min_volume q = None"
    using that by (simp add: passes_filters_def)
  have fifty: "list_markets ms q = take 10 ms \<and> length (list_markets ms q) = 10"
    if "limit q = Some 10" "offset q = None" "q_category q = None" "min_score q = None"
       "min_volume q = None" "length ms = 50"
    using that all by (simp add: list_markets_def)
  from pf mem sub off ten fifty show ?thesis by blast
qed

text \<open>
  The sample batch with \<open>min_score = 50\<close> lists the markets scoring 50 and 80 (the bound
  is inclusive), with \<open>limit = 1\<close> only the first of them; a batch of 50 markets listed
  with \<open>limit = 10\<close> yields its first ten.
\<close>

theorem list_markets_filters_then_truncates_witness:
  "map market_id (list_markets sample_batch
       \<lparr>q_category = None, min_score = Some 50, min_volume = Some 1000, limit = None,
        offset = None\<rparr>) = [''m1'', ''m2'']
   \<and> map market_id (list_markets sample_batch
       \<lparr>q_category = None, min_score = Some 50, min_volume = None, limit = Some 1,
        offset = None\<rparr>) = [''m1'']
   \<and> length (map (\<lambda>i. sample_market (show_nat i) Politics (1 / 2) 50) [0..<50]) = 50
   \<and> list_markets (map (\<lambda>i. sample_market (show_nat i) Politics (1 / 2) 50) [0..<50])
       \<lparr>q_category = None, min_score = None, min_volume = None, limit = Some 10,
        offset = None\<rparr>
      = map (\<lambda>i. sample_market (show_nat i) Politics (1 / 2) 50) [0..<10]"
  using
    list_markets_filters_then_truncates
      [of "\<lparr>q_category = None, min_score = Some 50, min_volume = Some 1000, limit = None,
            offset = None\<rparr>" "sample_market ''m1'' Politics (1 / 2) 50" sample_batch]
    list_markets_filters_then_truncates
      [of "\<lparr>q_category = None, min_score = None, min_volume = None, limit = Some 10,
            offset = None\<rparr>" "sample_market ''m1'' Politics (1 / 2) 50"
          "map (\<lambda>i. sample_market (show_nat i) Politics (1 / 2) 50) [0..<50]"]
  by (simp add: list_markets_def passes_filters_def sample_batch_def sample_market_def
        take_map)

end
